theory Spec2Isabelle
  imports Complex_Main
begin

section \<open>Numbers, rounding and exceptions\<close>

text \<open>
  The program computes with Python numbers. Every numeric quantity is modelled as a
  \<^typ>\<open>real\<close>: the arithmetic is exact, so the theorems below are statements about the
  formulas the code evaluates, not about the binary rounding of each operation.
  The decimal constants of the source (\<open>4.30\<close>, \<open>0.707\<close>, ...) are the rationals they
  denote.

  Exceptions are values. Division by zero raises \<open>ZeroDivisionError\<close> in Python (also for
  floats); a negative base raised to the power \<open>0.5\<close> gives a complex number, on which
  \<open>round\<close> raises \<open>TypeError\<close>; \<open>math.sqrt\<close> of a negative number raises \<open>ValueError\<close>.
\<close>

datatype value_error =
    Invalid_plate_dimensions
  | Bearing_stress_exceeds real real
  | Math_domain_error

datatype py_error = ZeroDivisionError | TypeError | ValueError value_error

text \<open>
  Python's \<open>round(x)\<close> with one argument returns the nearest integer and resolves a tie
  towards the even neighbour; \<open>math.ceil\<close> is the ceiling.
\<close>

definition py_round :: "real \<Rightarrow> int" where
  "py_round x =
     (let f = \<lfloor>x\<rfloor>; d = x - of_int f
      in if d < 1 / 2 then f
         else if 1 / 2 < d then f + 1
         else if even f then f else f + 1)"

definition ceil :: "real \<Rightarrow> int" where
  "ceil x = \<lceil>x\<rceil>"

section \<open>select_hss_size\<close>

text \<open>
  A catalog entry is the tuple of the source:
  (designation, area A, section modulus S, width B_hss, weight).
\<close>

type_synonym hss_entry = "string \<times> real \<times> real \<times> real \<times> real"

type_synonym hss_choice = "string \<times> real \<times> real \<times> real"

definition hss_sizes :: "hss_entry list" where
  "hss_sizes =
     [(''HSS6x6x3/16'', 4.30, 10.3, 6.0, 12.5),
      (''HSS8x8x3/16'', 5.75, 17.4, 8.0, 16.8),
      (''HSS8x8x1/4'', 7.56, 22.4, 8.0, 22.0),
      (''HSS10x10x1/4'', 9.52, 35.2, 10.0, 27.5),
      (''HSS12x12x1/4'', 11.5, 50.8, 12.0, 33.0)]"

definition K :: real where
  "K = 1.0"

definition r_factor :: real where
  "r_factor = 0.4"

text \<open>The two quantities the loop body compares, as the source computes them.\<close>

definition slenderness :: "real \<Rightarrow> real \<Rightarrow> real" where
  "slenderness L A = K * L / (r_factor * sqrt A)"

definition interaction ::
  "real \<Rightarrow> real \<Rightarrow> real \<Rightarrow> real \<Rightarrow> real \<Rightarrow> real \<Rightarrow> real \<Rightarrow> real \<Rightarrow> real" where
  "interaction P_total beam_load beam_width F_y phi_c A S B_hss =
     (let phi_Pn = phi_c * F_y * A;
          e = B_hss / 2 - beam_width / 2;
          M_u = beam_load * e;
          phi_Mn = phi_c * F_y * S
      in P_total / phi_Pn + M_u / phi_Mn)"

text \<open>
  The \<open>for\<close> loop over the catalog. \<open>continue\<close> and falling out of the \<open>if\<close> both go on
  with the rest of the list; the \<open>return\<close> in the body ends the scan; the \<open>return\<close> after
  the loop gives the tuple of four \<open>None\<close>, modelled as \<open>None\<close>.
  The slenderness is computed, and tested, before anything is divided by \<open>phi_Pn\<close>.
\<close>

fun hss_loop ::
  "real \<Rightarrow> real \<Rightarrow> real \<Rightarrow> real \<Rightarrow> real \<Rightarrow> real \<Rightarrow> hss_entry list
     \<Rightarrow> py_error + hss_choice option" where
  "hss_loop P_total L beam_load beam_width F_y phi_c [] = Inr None"
| "hss_loop P_total L beam_load beam_width F_y phi_c ((hss, A, S, B_hss, w) # rest) =
     (if A < 0 then Inl (ValueError Math_domain_error)
      else if r_factor * sqrt A = 0 then Inl ZeroDivisionError
      else if slenderness L A > 200
        then hss_loop P_total L beam_load beam_width F_y phi_c rest
      else if phi_c * F_y * A = 0 \<or> phi_c * F_y * S = 0 then Inl ZeroDivisionError
      else if interaction P_total beam_load beam_width F_y phi_c A S B_hss \<le> 0.9
        then Inr (Some (hss, A, S, B_hss))
      else hss_loop P_total L beam_load beam_width F_y phi_c rest)"

definition select_hss_size ::
  "real \<Rightarrow> real \<Rightarrow> real \<Rightarrow> real \<Rightarrow> real \<Rightarrow> real \<Rightarrow> py_error + hss_choice option" where
  "select_hss_size P_total L beam_load beam_width F_y phi_c =
     hss_loop P_total L beam_load beam_width F_y phi_c hss_sizes"

text \<open>
  The acceptance test in the words of the specification, on a catalog entry: the
  slenderness is at most 200 and the interaction ratio is at most 0.9. The function
  \<open>chosen\<close> is the tuple returned for an entry (the weight is dropped).
\<close>

definition chosen :: "hss_entry \<Rightarrow> hss_choice" where
  "chosen = (\<lambda>(hss, A, S, B_hss, w). (hss, A, S, B_hss))"

definition entry_slenderness :: "real \<Rightarrow> hss_entry \<Rightarrow> real" where
  "entry_slenderness L = (\<lambda>(hss, A, S, B_hss, w). slenderness L A)"

definition entry_interaction ::
  "real \<Rightarrow> real \<Rightarrow> real \<Rightarrow> real \<Rightarrow> real \<Rightarrow> hss_entry \<Rightarrow> real" where
  "entry_interaction P_total beam_load beam_width F_y phi_c =
     (\<lambda>(hss, A, S, B_hss, w). interaction P_total beam_load beam_width F_y phi_c A S B_hss)"

definition adequate ::
  "real \<Rightarrow> real \<Rightarrow> real \<Rightarrow> real \<Rightarrow> real \<Rightarrow> real \<Rightarrow> hss_entry \<Rightarrow> bool" where
  "adequate P_total L beam_load beam_width F_y phi_c entry \<longleftrightarrow>
     entry_slenderness L entry \<le> 200
     \<and> entry_interaction P_total beam_load beam_width F_y phi_c entry \<le> 0.9"

definition positive_entry :: "hss_entry \<Rightarrow> bool" where
  "positive_entry = (\<lambda>(hss, A, S, B_hss, w). 0 < A \<and> 0 < S)"

definition area_of :: "hss_entry \<Rightarrow> real" where
  "area_of = (\<lambda>(hss, A, S, B_hss, w). A)"

section \<open>calculate_plates\<close>

text \<open>
  The numbers behind the formatted strings of the returned dictionary.
\<close>

record plate_design =
  pd_B :: real
  pd_N :: real
  pd_t_cap :: real
  pd_bearing_width :: real
  pd_bearing_height :: real
  pd_t_bearing :: real
  pd_bearing_stress :: real
  pd_weld_size :: real

text \<open>Lines 66 to 70: the bearing length, rounded by \<open>ceil(N * 4) / 4\<close>.\<close>

definition bearing_length :: "real \<Rightarrow> real \<Rightarrow> real \<Rightarrow> real \<Rightarrow> real \<Rightarrow> real" where
  "bearing_length P_beam B_hss beam_width lvl_bearing load_factor =
     (let P_s = P_beam / load_factor;
          A_bearing = P_s * 1000 / lvl_bearing;
          N = A_bearing / beam_width;
          N = max N B_hss
      in of_int (ceil (N * 4)) / 4)"

text \<open>Line 73: the cap plate width.\<close>

definition cap_width :: "real \<Rightarrow> real \<Rightarrow> real" where
  "cap_width B_hss beam_width = max (B_hss + 2) (beam_width + 2)"

text \<open>Lines 76 to 81: the cantilever length \<open>l\<close>.\<close>

definition cantilever :: "real \<Rightarrow> real \<Rightarrow> real \<Rightarrow> real" where
  "cantilever B_hss beam_width beam_offset =
     (let B = cap_width B_hss beam_width;
          d = B_hss;
          m = (B - 0.95 * d) / 2;
          n = (B - 0.8 * beam_width) / 2;
          beam_centroid = beam_offset + beam_width / 2;
          n_ecc = max (B_hss - (beam_offset + beam_width)) beam_centroid
      in max (max m n) n_ecc)"

text \<open>
  Lines 86 and 88: the required cap plate thickness
  \<open>l * ((2 * (P_beam + P_upper)) / denominator) ** 0.5\<close>, for a non-negative radicand.
\<close>

definition cap_required :: "real \<Rightarrow> real \<Rightarrow> real \<Rightarrow> real \<Rightarrow> real" where
  "cap_required l P_beam P_upper denominator =
     l * sqrt (2 * (P_beam + P_upper) / denominator)"

text \<open>Lines 98 and 100: the required bearing plate thickness.\<close>

definition bearing_required :: "real \<Rightarrow> real \<Rightarrow> real \<Rightarrow> real" where
  "bearing_required P_upper F_y bearing_width =
     (P_upper / 2) / (0.75 * 1.8 * F_y * bearing_width)"

text \<open>Lines 111 to 114: the weld demand per inch and the weld size it requires.\<close>

definition weld_demand :: "real \<Rightarrow> real \<Rightarrow> real \<Rightarrow> real" where
  "weld_demand P_beam P_upper B_hss =
     (let q_cap = (P_beam + P_upper) / (4 * B_hss);
          q_bearing = P_upper / (2 * 2 * B_hss)
      in max q_cap q_bearing)"

definition weld_required :: "real \<Rightarrow> real \<Rightarrow> real \<Rightarrow> real" where
  "weld_required P_beam P_upper B_hss =
     weld_demand P_beam P_upper B_hss / (0.75 * 0.707 * 0.6 * 70)"

text \<open>
  The body of the \<open>try\<close> block, statement by statement. Each division is guarded by the
  test that makes Python raise; the two \<open>raise ValueError\<close> are the branches of their
  \<open>if\<close>. The result is the exception raised or the values put into the dictionary.
\<close>

definition calculate_plates_try ::
  "real \<Rightarrow> real \<Rightarrow> real \<Rightarrow> real \<Rightarrow> real \<Rightarrow> real \<Rightarrow> real \<Rightarrow> real \<Rightarrow> real \<Rightarrow> real
     \<Rightarrow> py_error + plate_design" where
  "calculate_plates_try P_beam P_upper B_hss beam_width beam_height beam_offset
       lvl_bearing F_y phi load_factor =
     (if load_factor = 0 then Inl ZeroDivisionError
      else if lvl_bearing = 0 then Inl ZeroDivisionError
      else if beam_width = 0 then Inl ZeroDivisionError
      else
        let P_s = P_beam / load_factor;
            N = bearing_length P_beam B_hss beam_width lvl_bearing load_factor;
            B = cap_width B_hss beam_width;
            l = cantilever B_hss beam_width beam_offset;
            denominator = phi * F_y * B * N
        in
        if denominator = 0 then Inl (ValueError Invalid_plate_dimensions)
        else if 2 * (P_beam + P_upper) / denominator < 0 then Inl TypeError
        else
          let t_cap = cap_required l P_beam P_upper denominator;
              t_cap = max (of_int (py_round (t_cap * 8)) / 8) 0.375;
              t_cap = (if t_cap < cap_required l P_beam P_upper denominator
                       then t_cap + 0.125 else t_cap);
              bearing_width = B_hss;
              bearing_height = beam_height;
              t_bearing = 1.0;
              bearing_area = bearing_width * t_bearing;
              phi_Rn = 0.75 * 1.8 * F_y * bearing_area
          in
          if phi_Rn < P_upper / 2 \<and> 0.75 * 1.8 * F_y * bearing_width = 0
            then Inl ZeroDivisionError
          else
            let t_bearing =
                  (if phi_Rn < P_upper / 2
                   then
                     let t_bearing = bearing_required P_upper F_y bearing_width;
                         t_bearing = of_int (py_round (t_bearing * 8)) / 8
                     in if t_bearing < bearing_required P_upper F_y bearing_width
                        then t_bearing + 0.125 else t_bearing
                   else t_bearing)
            in
            if beam_width * N = 0 then Inl ZeroDivisionError
            else
              let bearing_stress = P_s * 1000 / (beam_width * N) in
              if bearing_stress > lvl_bearing
                then Inl (ValueError (Bearing_stress_exceeds bearing_stress lvl_bearing))
              else if 4 * B_hss = 0 then Inl ZeroDivisionError
              else
                let weld_size = 3 / 16;
                    phi_Rn_weld = 0.75 * 0.707 * weld_size * 0.6 * 70;
                    weld_size =
                      (if weld_demand P_beam P_upper B_hss > phi_Rn_weld
                       then
                         let weld_size = weld_required P_beam P_upper B_hss
                         in of_int (py_round (weld_size * 16)) / 16
                       else weld_size)
                in Inr \<lparr>pd_B = B, pd_N = N, pd_t_cap = t_cap,
                         pd_bearing_width = bearing_width,
                         pd_bearing_height = bearing_height,
                         pd_t_bearing = t_bearing,
                         pd_bearing_stress = bearing_stress,
                         pd_weld_size = weld_size\<rparr>)"

text \<open>
  The dictionary returned: an association list in insertion order. A value is the
  tuple of numbers that the source formats into the string; an exception is kept as it is
  where the source stores \<open>str(e)\<close>.
\<close>

datatype dict_value =
    Dimensions real real real
  | Psi real
  | Inches real
  | Message py_error

type_synonym plate_dict = "(string \<times> dict_value) list"

definition calculate_plates ::
  "real \<Rightarrow> real \<Rightarrow> real \<Rightarrow> real \<Rightarrow> real \<Rightarrow> real \<Rightarrow> real \<Rightarrow> real \<Rightarrow> real \<Rightarrow> real
     \<Rightarrow> plate_dict" where
  "calculate_plates P_beam P_upper B_hss beam_width beam_height beam_offset
       lvl_bearing F_y phi load_factor =
     (case calculate_plates_try P_beam P_upper B_hss beam_width beam_height beam_offset
             lvl_bearing F_y phi load_factor of
        Inl e \<Rightarrow> [(''Error'', Message e)]
      | Inr d \<Rightarrow>
          [(''Cap Plate'', Dimensions (pd_B d) (pd_N d) (pd_t_cap d)),
           (''Bearing Plates'',
              Dimensions (pd_bearing_width d) (pd_bearing_height d) (pd_t_bearing d)),
           (''LVL Bearing Stress'', Psi (pd_bearing_stress d)),
           (''Weld Size'', Inches (pd_weld_size d))])"

section \<open>process_column_stack\<close>

text \<open>A case is (post_length, beam_load, beam_width, beam_height).\<close>

type_synonym stack_case = "real \<times> real \<times> real \<times> real"

text \<open>
  The first loop: over \<open>reversed(cases)\<close>, adding each beam load to \<open>cumulative_load\<close>
  and inserting the sum at the front of \<open>total_loads\<close>.
\<close>

fun cumulative_loop :: "stack_case list \<Rightarrow> real \<Rightarrow> real list \<Rightarrow> real list" where
  "cumulative_loop [] cumulative_load total_loads = total_loads"
| "cumulative_loop ((post_length, beam_load, beam_width, beam_height) # rest)
       cumulative_load total_loads =
     (let cumulative_load = cumulative_load + beam_load
      in cumulative_loop rest cumulative_load (cumulative_load # total_loads))"

definition total_loads_of :: "stack_case list \<Rightarrow> real list" where
  "total_loads_of cases = cumulative_loop (rev cases) 0 []"

text \<open>
  A result entry: the source builds a string from the level number and either the fixed
  error text or the designation and the items of the plate dictionary.
\<close>

datatype level_result =
    No_suitable_HSS nat
  | Level_design nat string plate_dict

text \<open>
  The second loop, over \<open>enumerate(zip(cases, total_loads), 1)\<close>. An exception of
  \<open>select_hss_size\<close> is not caught here and ends the function.
\<close>

fun level_loop ::
  "real \<Rightarrow> nat \<Rightarrow> (stack_case \<times> real) list \<Rightarrow> level_result list
     \<Rightarrow> py_error + level_result list" where
  "level_loop lvl_bearing i [] results = Inr results"
| "level_loop lvl_bearing i (((post_length, beam_load, beam_width, beam_height), P_total) # rest)
       results =
     (case select_hss_size P_total post_length beam_load beam_width 46 0.9 of
        Inl e \<Rightarrow> Inl e
      | Inr None \<Rightarrow>
          level_loop lvl_bearing (i + 1) rest (results @ [No_suitable_HSS i])
      | Inr (Some (hss, A_hss, S_hss, B_hss)) \<Rightarrow>
          (let P_upper = P_total - beam_load;
               plate_design =
                 calculate_plates beam_load P_upper B_hss beam_width beam_height 0
                   lvl_bearing 36 0.9 1.6
           in level_loop lvl_bearing (i + 1) rest
                (results @ [Level_design i hss plate_design])))"

definition process_column_stack ::
  "stack_case list \<Rightarrow> real \<Rightarrow> py_error + level_result list" where
  "process_column_stack cases lvl_bearing =
     level_loop lvl_bearing 1 (zip cases (total_loads_of cases)) []"

text \<open>
  Auxiliary notions for stating properties of the two loops: the beam load of a case, the
  entry appended to \<open>results\<close> by one pass of the second loop once \<open>select_hss_size\<close>
  has returned \<open>choice\<close>, and the choice made with the default \<open>F_y = 46\<close>,
  \<open>phi_c = 0.9\<close>.
\<close>

definition beam_load_of :: "stack_case \<Rightarrow> real" where
  "beam_load_of = (\<lambda>(post_length, beam_load, beam_width, beam_height). beam_load)"

definition level_entry ::
  "real \<Rightarrow> nat \<Rightarrow> stack_case \<times> real \<Rightarrow> hss_choice option \<Rightarrow> level_result" where
  "level_entry lvl_bearing i =
     (\<lambda>((post_length, beam_load, beam_width, beam_height), P_total) choice.
        case choice of
          None \<Rightarrow> No_suitable_HSS i
        | Some (hss, A_hss, S_hss, B_hss) \<Rightarrow>
            Level_design i hss
              (calculate_plates beam_load (P_total - beam_load) B_hss beam_width beam_height 0
                 lvl_bearing 36 0.9 1.6))"

definition default_choice :: "stack_case \<times> real \<Rightarrow> hss_choice option" where
  "default_choice =
     (\<lambda>((post_length, beam_load, beam_width, beam_height), P_total).
        map_option chosen
          (find (adequate P_total post_length beam_load beam_width 46 0.9) hss_sizes))"

section \<open>Facts about rounding\<close>

lemma py_round_bounds:
  "of_int (py_round x) \<le> x + 1 / 2" "x - 1 / 2 \<le> of_int (py_round x)"
  unfolding py_round_def Let_def by (auto; linarith)+

text \<open>Rounding to the nearest integer and adding one when the result is too small is
  the ceiling.\<close>

lemma py_round_bump:
  "(if of_int (py_round y) < y then py_round y + 1 else py_round y) = \<lceil>y\<rceil>"
  unfolding py_round_def Let_def
  by (auto simp: ceiling_altdef; linarith)

lemma bump_eighth:
  fixes r :: real
  shows "(if of_int (py_round (r * 8)) / 8 < r then of_int (py_round (r * 8)) / 8 + 0.125
          else of_int (py_round (r * 8)) / 8) = (of_int \<lceil>r * 8\<rceil> / 8 :: real)"
proof -
  have "of_int \<lceil>r * 8\<rceil> = (if of_int (py_round (r * 8)) < r * 8
          then of_int (py_round (r * 8)) + 1 else (of_int (py_round (r * 8)) :: real))"
    using py_round_bump [of "r * 8"] by (auto split: if_splits)
  then show ?thesis by (auto simp: field_simps)
qed

lemma cap_final:
  fixes r :: real
  shows "(let t = max (of_int (py_round (r * 8)) / 8) 0.375
          in if t < r then t + 0.125 else t) = max (of_int \<lceil>r * 8\<rceil> / 8) (3 / 8 :: real)"
proof (cases "3 \<le> py_round (r * 8)")
  case True
  then have k: "(3::real) \<le> of_int (py_round (r * 8))" by linarith
  have c: "py_round (r * 8) \<le> \<lceil>r * 8\<rceil>"
    using py_round_bump [of "r * 8"] by (auto split: if_splits)
  then have c': "(of_int (py_round (r * 8)) :: real) \<le> of_int \<lceil>r * 8\<rceil>" by linarith
  have t: "max (of_int (py_round (r * 8)) / 8) (0.375::real) = of_int (py_round (r * 8)) / 8"
    using k by (simp add: max_def)
  have m: "max (of_int \<lceil>r * 8\<rceil> / 8) (3 / 8 :: real) = of_int \<lceil>r * 8\<rceil> / 8"
    using k c' by (simp add: max_def) linarith
  show ?thesis unfolding Let_def t m by (rule bump_eighth)
next
  case False
  then have "py_round (r * 8) \<le> 2" by simp
  then have k: "(of_int (py_round (r * 8)) :: real) \<le> 2" by linarith
  have r: "r * 8 \<le> 5 / 2" using py_round_bounds(2) [of "r * 8"] k by linarith
  then have c: "\<lceil>r * 8\<rceil> \<le> 3" by (simp add: ceiling_le_iff)
  then have c': "(of_int \<lceil>r * 8\<rceil> :: real) \<le> 3" by linarith
  have t: "max (of_int (py_round (r * 8)) / 8) (0.375::real) = 0.375"
    using k by (simp add: max_def)
  have m: "max (of_int \<lceil>r * 8\<rceil> / 8) (3 / 8 :: real) = 3 / 8"
    using c' by (simp add: max_def)
  show ?thesis unfolding Let_def t m using r by simp
qed

section \<open>Facts about the catalog scan\<close>

lemma hss_sizes_positive: "list_all positive_entry hss_sizes"
  by (simp add: hss_sizes_def positive_entry_def)

text \<open>With a non-zero \<open>phi_c * F_y\<close> no division fails, and the loop is a search for the
  first adequate entry.\<close>

lemma hss_loop_find:
  assumes "phi_c * F_y \<noteq> 0" and "list_all positive_entry xs"
  shows "hss_loop P_total L beam_load beam_width F_y phi_c xs =
           Inr (map_option chosen (find (adequate P_total L beam_load beam_width F_y phi_c) xs))"
  using assms(2)
proof (induction xs)
  case Nil
  show ?case by simp
next
  case (Cons x xs)
  obtain hss A S B_hss w where x: "x = (hss, A, S, B_hss, w)"
    by (cases x) auto
  from Cons.prems have pos: "0 < A" "0 < S" and rest: "list_all positive_entry xs"
    by (simp_all add: x positive_entry_def)
  have nz: "r_factor * sqrt A \<noteq> 0" "phi_c * F_y * A \<noteq> 0" "phi_c * F_y * S \<noteq> 0"
    using pos assms(1) by (simp_all add: r_factor_def)
  show ?case
    using Cons.IH [OF rest] pos nz
    by (simp add: x adequate_def entry_slenderness_def entry_interaction_def chosen_def
          not_le not_less)
qed

text \<open>A candidate is only ever returned after both divisions succeeded.\<close>

lemma hss_loop_Some_nonzero:
  assumes "list_all positive_entry xs"
    and "hss_loop P_total L beam_load beam_width F_y phi_c xs = Inr (Some r)"
  shows "phi_c * F_y \<noteq> 0"
  using assms
proof (induction xs)
  case Nil
  then show ?case by simp
next
  case (Cons x xs)
  obtain hss A S B_hss w where x: "x = (hss, A, S, B_hss, w)"
    by (cases x) auto
  from Cons.prems(1) have rest: "list_all positive_entry xs" by simp
  show ?case
    using Cons.IH [OF rest] Cons.prems(2)
    by (auto simp: x split: if_splits)
qed

text \<open>With \<open>phi_c * F_y = 0\<close> the first entry that passes the slenderness test raises
  \<open>ZeroDivisionError\<close>.\<close>

lemma hss_loop_zero_capacity:
  assumes "phi_c * F_y = 0" and "list_all positive_entry xs"
  shows "hss_loop P_total L beam_load beam_width F_y phi_c xs =
           (if list_all (\<lambda>e. entry_slenderness L e > 200) xs then Inr None
            else Inl ZeroDivisionError)"
  using assms(2)
proof (induction xs)
  case Nil
  show ?case by simp
next
  case (Cons x xs)
  obtain hss A S B_hss w where x: "x = (hss, A, S, B_hss, w)"
    by (cases x) auto
  from Cons.prems have pos: "0 < A" "0 < S" and rest: "list_all positive_entry xs"
    by (simp_all add: x positive_entry_def)
  have nz: "r_factor * sqrt A \<noteq> 0"
    using pos by (simp add: r_factor_def)
  have z: "phi_c * F_y * A = 0" using assms(1) by simp
  show ?case
    using Cons.IH [OF rest] pos nz z
    by (simp add: x entry_slenderness_def)
qed

lemma select_default:
  "select_hss_size P_total L beam_load beam_width 46 0.9 =
     Inr (map_option chosen (find (adequate P_total L beam_load beam_width 46 0.9) hss_sizes))"
  unfolding select_hss_size_def by (rule hss_loop_find [OF _ hss_sizes_positive]) simp

text \<open>A post of at most 160 in passes the slenderness test on every section of area at
  least 4.\<close>

lemma slenderness_short:
  assumes "L \<le> 160" and "4 \<le> A"
  shows "slenderness L A \<le> 200"
proof -
  have "2 \<le> sqrt A"
    by (rule real_le_rsqrt) (use assms(2) in simp)
  then have "L \<le> 80 * sqrt A" using assms(1) by linarith
  moreover have "0 < sqrt A" using \<open>2 \<le> sqrt A\<close> by linarith
  ultimately show ?thesis
    by (simp add: slenderness_def K_def r_factor_def field_simps)
qed

text \<open>Two runs of the scan: the first level of the example stack (total 116.1 kips),
  and the same level under 200 kips.\<close>

lemma find_demo:
  "find (adequate 116.1 120 56 3 46 0.9) hss_sizes = Some (''HSS6x6x3/16'', 4.30, 10.3, 6.0, 12.5)"
proof -
  have "slenderness 120 (43 / 10) \<le> 200" by (rule slenderness_short) simp_all
  then show ?thesis
    by (simp add: hss_sizes_def adequate_def entry_slenderness_def entry_interaction_def
          interaction_def Let_def)
qed

lemma select_demo:
  "select_hss_size 116.1 120 56 3 46 0.9 = Inr (Some (''HSS6x6x3/16'', 4.30, 10.3, 6.0))"
  unfolding select_default find_demo by (simp add: chosen_def)

lemma find_heavy:
  "find (adequate 200 120 56 3 46 0.9) hss_sizes = Some (''HSS8x8x1/4'', 7.56, 22.4, 8.0, 22.0)"
proof -
  have "slenderness 120 (189 / 25) \<le> 200" by (rule slenderness_short) simp_all
  then show ?thesis
    by (simp add: hss_sizes_def adequate_def entry_slenderness_def entry_interaction_def
          interaction_def Let_def)
qed

lemma select_heavy:
  "select_hss_size 200 120 56 3 46 0.9 = Inr (Some (''HSS8x8x1/4'', 7.56, 22.4, 8.0))"
  unfolding select_default find_heavy by (simp add: chosen_def)

text \<open>The slenderness falls as the area grows.\<close>

lemma slenderness_decreasing:
  assumes "0 < A" "A < A'" "0 < L"
  shows "slenderness L A' < slenderness L A"
proof -
  have s: "0 < sqrt A" "sqrt A < sqrt A'" using assms by simp_all
  then have "L / sqrt A' < L / sqrt A"
    using assms(3) by (simp add: frac_less2)
  then show ?thesis
    by (simp add: slenderness_def K_def r_factor_def field_simps)
qed

lemma slenderness_nonpositive:
  assumes "0 < A" "L \<le> 0"
  shows "slenderness L A \<le> 0"
  using assms by (simp add: slenderness_def K_def r_factor_def field_simps)

lemma hss_sizes_areas: "sorted_wrt (<) (map area_of hss_sizes)"
  by (simp add: hss_sizes_def area_of_def)

lemma hss_sizes_area_positive: "i < length hss_sizes \<Longrightarrow> 0 < area_of (hss_sizes ! i)"
  using hss_sizes_positive
  by (auto simp: list_all_length positive_entry_def area_of_def split: prod.splits)

lemma entry_slenderness_area: "entry_slenderness L e = slenderness L (area_of e)"
  by (simp add: entry_slenderness_def area_of_def split: prod.splits)

section \<open>Facts about the plate sizing\<close>

text \<open>
  The body of the \<open>try\<close> block in closed form: the exceptions in the order in which they
  are raised, then the values returned, with the two round-and-bump steps written as
  ceilings.
\<close>

lemma calculate_plates_try_eq:
  "calculate_plates_try P_beam P_upper B_hss beam_width beam_height beam_offset
       lvl_bearing F_y phi load_factor =
     (if load_factor = 0 \<or> lvl_bearing = 0 \<or> beam_width = 0 then Inl ZeroDivisionError
      else if phi * F_y * cap_width B_hss beam_width
                * bearing_length P_beam B_hss beam_width lvl_bearing load_factor = 0
        then Inl (ValueError Invalid_plate_dimensions)
      else if 2 * (P_beam + P_upper)
                / (phi * F_y * cap_width B_hss beam_width
                     * bearing_length P_beam B_hss beam_width lvl_bearing load_factor) < 0
        then Inl TypeError
      else if 0.75 * 1.8 * F_y * B_hss < P_upper / 2 \<and> F_y * B_hss = 0
        then Inl ZeroDivisionError
      else if P_beam / load_factor * 1000
                / (beam_width * bearing_length P_beam B_hss beam_width lvl_bearing load_factor)
              > lvl_bearing
        then Inl (ValueError (Bearing_stress_exceeds
               (P_beam / load_factor * 1000
                  / (beam_width * bearing_length P_beam B_hss beam_width lvl_bearing load_factor))
               lvl_bearing))
      else if B_hss = 0 then Inl ZeroDivisionError
      else Inr \<lparr>pd_B = cap_width B_hss beam_width,
                 pd_N = bearing_length P_beam B_hss beam_width lvl_bearing load_factor,
                 pd_t_cap =
                   max (of_int \<lceil>cap_required (cantilever B_hss beam_width beam_offset)
                          P_beam P_upper
                          (phi * F_y * cap_width B_hss beam_width
                             * bearing_length P_beam B_hss beam_width lvl_bearing load_factor)
                        * 8\<rceil> / 8) (3 / 8),
                 pd_bearing_width = B_hss,
                 pd_bearing_height = beam_height,
                 pd_t_bearing =
                   (if 0.75 * 1.8 * F_y * B_hss < P_upper / 2
                    then of_int \<lceil>bearing_required P_upper F_y B_hss * 8\<rceil> / 8 else 1),
                 pd_bearing_stress =
                   P_beam / load_factor * 1000
                     / (beam_width
                          * bearing_length P_beam B_hss beam_width lvl_bearing load_factor),
                 pd_weld_size =
                   (if weld_demand P_beam P_upper B_hss > 0.75 * 0.707 * (3 / 16) * 0.6 * 70
                    then of_int (py_round (weld_required P_beam P_upper B_hss * 16)) / 16
                    else 3 / 16)\<rparr>)"
  unfolding calculate_plates_try_def Let_def cap_final [unfolded Let_def] bump_eighth
  by (simp add: bearing_length_def Let_def)

text \<open>The first level of the example stack: \<open>calculate_plates(56, 60.1, 6.0, 3, 12)\<close>.\<close>

lemma bearing_length_example: "bearing_length 56 6 3 500 1.6 = 47 / 2"
  by (simp add: bearing_length_def ceil_def Let_def)

lemma cap_width_example: "cap_width 6 3 = 8"
  by (simp add: cap_width_def)

lemma cantilever_example: "cantilever 6 3 0 = 3"
  by (simp add: cantilever_def cap_width_def Let_def)

lemma cap_required_example:
  "\<lceil>cap_required 3 56 60.1 (0.9 * 36 * 8 * (47 / 2)) * 8\<rceil> = 5"
proof -
  have q: "2 * (56 + 60.1) / (0.9 * 36 * 8 * (47 / 2)) = (43 / 1128 :: real)" by simp
  have "1 / 6 < sqrt (43 / 1128)"
    by (rule real_less_rsqrt) (simp add: power2_eq_square)
  moreover have "sqrt (43 / 1128) \<le> 5 / 24"
    by (rule real_le_lsqrt) (simp_all add: power2_eq_square)
  ultimately show ?thesis
    unfolding cap_required_def q by (simp add: ceiling_eq_iff)
qed

lemma plates_example:
  "calculate_plates_try 56 60.1 6 3 12 0 500 36 0.9 1.6 =
     Inr \<lparr>pd_B = 8, pd_N = 23.5, pd_t_cap = 0.625,
            pd_bearing_width = 6, pd_bearing_height = 12, pd_t_bearing = 1,
            pd_bearing_stress = 35000 / 70.5, pd_weld_size = 3 / 16\<rparr>"
  unfolding calculate_plates_try_eq bearing_length_example cap_width_example
    cantilever_example cap_required_example
  by (simp add: weld_demand_def weld_required_def py_round_def Let_def)

text \<open>The same level with 700 kips from above: the bearing plates are resized.\<close>

lemma cap_required_heavy:
  "\<lceil>cap_required 3 56 700 (0.9 * 36 * 8 * (47 / 2)) * 8\<rceil> = 12"
proof -
  have q: "2 * (56 + 700) / (0.9 * 36 * 8 * (47 / 2)) = (35 / 141 :: real)" by simp
  have "11 / 24 < sqrt (35 / 141)"
    by (rule real_less_rsqrt) (simp add: power2_eq_square)
  moreover have "sqrt (35 / 141) \<le> 1 / 2"
    by (rule real_le_lsqrt) (simp_all add: power2_eq_square)
  ultimately show ?thesis
    unfolding cap_required_def q by (simp add: ceiling_eq_iff)
qed

lemma plates_heavy:
  "calculate_plates_try 56 700 6 3 12 0 500 36 0.9 1.6 =
     Inr \<lparr>pd_B = 8, pd_N = 23.5, pd_t_cap = 1.5,
            pd_bearing_width = 6, pd_bearing_height = 12, pd_t_bearing = 1.25,
            pd_bearing_stress = 35000 / 70.5, pd_weld_size = 23 / 16\<rparr>"
  unfolding calculate_plates_try_eq bearing_length_example cap_width_example
    cantilever_example cap_required_heavy
  by (simp add: weld_demand_def weld_required_def bearing_required_def py_round_def Let_def
        ceiling_eq_iff)

text \<open>A call with a negative section width.\<close>

lemma bearing_length_negative: "bearing_length 56 (- 6) 3 500 1.6 = 47 / 2"
  by (simp add: bearing_length_def ceil_def Let_def)

lemma cap_width_negative: "cap_width (- 6) 3 = 5"
  by (simp add: cap_width_def)

lemma cantilever_negative: "cantilever (- 6) 3 0 = 107 / 20"
  by (simp add: cantilever_def cap_width_def Let_def)

lemma cap_required_negative:
  "\<lceil>cap_required (107 / 20) 56 0 (0.9 * 36 * 5 * (47 / 2)) * 8\<rceil> = 8"
proof -
  have q: "2 * (56 + 0) / (0.9 * 36 * 5 * (47 / 2)) = (112 / 3807 :: real)" by simp
  have "35 / 214 < sqrt (112 / 3807)"
    by (rule real_less_rsqrt) (simp add: power2_eq_square)
  moreover have "sqrt (112 / 3807) \<le> 40 / 214"
    by (rule real_le_lsqrt) (simp_all add: power2_eq_square)
  ultimately show ?thesis
    unfolding cap_required_def q by (simp add: ceiling_eq_iff)
qed

lemma plates_negative:
  "calculate_plates_try 56 0 (- 6) 3 12 0 500 36 0.9 1.6 =
     Inr \<lparr>pd_B = 5, pd_N = 23.5, pd_t_cap = 1,
            pd_bearing_width = - 6, pd_bearing_height = 12, pd_t_bearing = 0,
            pd_bearing_stress = 35000 / 70.5, pd_weld_size = 3 / 16\<rparr>"
  unfolding calculate_plates_try_eq bearing_length_negative cap_width_negative
    cantilever_negative cap_required_negative
  by (simp add: weld_demand_def weld_required_def bearing_required_def py_round_def Let_def)

text \<open>Two calls that raise: a negative allowable stress, and \<open>phi = 0\<close>.\<close>

lemma plates_stress:
  "calculate_plates_try 56 60.1 6 3 12 0 (- 500) 36 0.9 1.6 =
     Inl (ValueError (Bearing_stress_exceeds (35000 / 18) (- 500)))"
proof -
  have N: "bearing_length 56 6 3 (- 500) 1.6 = 6"
    by (simp add: bearing_length_def ceil_def Let_def)
  show ?thesis
    unfolding calculate_plates_try_eq N cap_width_example by simp
qed

lemma plates_phi_zero:
  "calculate_plates_try 56 60.1 6 3 12 0 500 36 0 1.6 =
     Inl (ValueError Invalid_plate_dimensions)"
  unfolding calculate_plates_try_eq by simp

text \<open>What a call that does not raise returns.\<close>

lemma calculate_plates_try_Inr:
  assumes "calculate_plates_try P_beam P_upper B_hss beam_width beam_height beam_offset
             lvl_bearing F_y phi load_factor = Inr d"
  shows "pd_B d = cap_width B_hss beam_width"
    and "pd_N d = bearing_length P_beam B_hss beam_width lvl_bearing load_factor"
    and "pd_t_cap d =
           max (of_int \<lceil>cap_required (cantilever B_hss beam_width beam_offset) P_beam P_upper
                   (phi * F_y * cap_width B_hss beam_width
                      * bearing_length P_beam B_hss beam_width lvl_bearing load_factor)
                 * 8\<rceil> / 8) (3 / 8)"
    and "pd_t_bearing d =
           (if 0.75 * 1.8 * F_y * B_hss < P_upper / 2
            then of_int \<lceil>bearing_required P_upper F_y B_hss * 8\<rceil> / 8 else 1)"
    and "pd_bearing_stress d =
           P_beam / load_factor * 1000
             / (beam_width * bearing_length P_beam B_hss beam_width lvl_bearing load_factor)"
    and "pd_bearing_stress d \<le> lvl_bearing"
    and "pd_weld_size d =
           (if weld_demand P_beam P_upper B_hss > 0.75 * 0.707 * (3 / 16) * 0.6 * 70
            then of_int (py_round (weld_required P_beam P_upper B_hss * 16)) / 16
            else 3 / 16)"
  using assms unfolding calculate_plates_try_eq
  by (auto split: if_splits)

text \<open>The dictionary built from the outcome of the \<open>try\<close> block.\<close>

lemma calculate_plates_of_Inr:
  "calculate_plates_try P_beam P_upper B_hss beam_width beam_height beam_offset
     lvl_bearing F_y phi load_factor = Inr d \<Longrightarrow>
   calculate_plates P_beam P_upper B_hss beam_width beam_height beam_offset
     lvl_bearing F_y phi load_factor =
     [(''Cap Plate'', Dimensions (pd_B d) (pd_N d) (pd_t_cap d)),
      (''Bearing Plates'',
         Dimensions (pd_bearing_width d) (pd_bearing_height d) (pd_t_bearing d)),
      (''LVL Bearing Stress'', Psi (pd_bearing_stress d)),
      (''Weld Size'', Inches (pd_weld_size d))]"
  by (simp add: calculate_plates_def)

lemma calculate_plates_of_Inl:
  "calculate_plates_try P_beam P_upper B_hss beam_width beam_height beam_offset
     lvl_bearing F_y phi load_factor = Inl e \<Longrightarrow>
   calculate_plates P_beam P_upper B_hss beam_width beam_height beam_offset
     lvl_bearing F_y phi load_factor = [(''Error'', Message e)]"
  by (simp add: calculate_plates_def)

section \<open>Facts about the two loops of the stack\<close>

text \<open>
  With the default \<open>F_y\<close> and \<open>phi_c\<close> the selection never raises, so the second loop
  appends one entry per element of the zipped list; the first loop builds the suffix sums
  of the beam loads.
\<close>

lemma level_loop_enumerate:
  "level_loop lvl_bearing i zs results =
     Inr (results @ map (\<lambda>(k, z). level_entry lvl_bearing k z (default_choice z)) (enumerate i zs))"
proof (induction zs arbitrary: i results)
  case Nil
  show ?case by simp
next
  case (Cons z zs)
  obtain post_length beam_load beam_width beam_height P_total
    where z: "z = ((post_length, beam_load, beam_width, beam_height), P_total)"
    by (cases z) auto
  show ?case
    by (cases "find (adequate P_total post_length beam_load beam_width 46 0.9) hss_sizes")
       (auto simp: z select_default Cons.IH level_entry_def default_choice_def Let_def
          split: prod.splits)
qed

lemma cumulative_loop_append:
  "cumulative_loop (xs @ ys) c acc =
     cumulative_loop ys (c + sum_list (map beam_load_of xs)) (cumulative_loop xs c acc)"
  by (induction xs arbitrary: c acc) (auto simp: beam_load_of_def Let_def add.assoc)

lemma total_loads_of_Nil: "total_loads_of [] = []"
  by (simp add: total_loads_of_def)

lemma total_loads_of_Cons:
  "total_loads_of (x # cases) =
     (beam_load_of x + sum_list (map beam_load_of cases)) # total_loads_of cases"
proof -
  obtain post_length beam_load beam_width beam_height
    where x: "x = (post_length, beam_load, beam_width, beam_height)"
    by (cases x) auto
  have "sum_list (map beam_load_of (rev cases)) = sum_list (map beam_load_of cases)"
    by (simp add: rev_map [symmetric])
  then show ?thesis
    by (simp add: total_loads_of_def cumulative_loop_append x beam_load_of_def Let_def add.commute)
qed

lemma total_loads_of_length: "length (total_loads_of cases) = length cases"
  by (induction cases) (simp_all add: total_loads_of_Nil total_loads_of_Cons)

lemma total_loads_of_nth:
  "i < length cases \<Longrightarrow>
     total_loads_of cases ! i = sum_list (map beam_load_of (drop i cases))"
proof (induction cases arbitrary: i)
  case Nil
  then show ?case by simp
next
  case (Cons x cases)
  show ?case
  proof (cases i)
    case 0
    then show ?thesis by (simp add: total_loads_of_Cons)
  next
    case (Suc k)
    with Cons.prems have "k < length cases" by simp
    from Cons.IH [OF this] show ?thesis by (simp add: Suc total_loads_of_Cons)
  qed
qed

lemma process_column_stack_entries:
  "process_column_stack cases lvl_bearing =
     Inr (map (\<lambda>(k, z). level_entry lvl_bearing k z (default_choice z))
            (enumerate 1 (zip cases (total_loads_of cases))))"
  by (simp add: process_column_stack_def level_loop_enumerate)

lemma process_column_stack_length:
  "process_column_stack cases lvl_bearing = Inr rs \<Longrightarrow> length rs = length cases"
  by (auto simp: process_column_stack_entries total_loads_of_length)

lemma process_column_stack_nth:
  assumes "process_column_stack cases lvl_bearing = Inr rs" and "i < length cases"
  shows "rs ! i = level_entry lvl_bearing (i + 1) (cases ! i, total_loads_of cases ! i)
                    (default_choice (cases ! i, total_loads_of cases ! i))"
proof -
  have rs: "rs = map (\<lambda>(k, z). level_entry lvl_bearing k z (default_choice z))
                   (enumerate 1 (zip cases (total_loads_of cases)))"
    using assms(1) by (simp add: process_column_stack_entries)
  have "i < length (zip cases (total_loads_of cases))"
    using assms(2) by (simp add: total_loads_of_length)
  then show ?thesis
    unfolding rs using assms(2)
    by (simp add: nth_enumerate_eq total_loads_of_length)
qed

text \<open>The entry of a level in terms of what \<open>select_hss_size\<close> returned for it.\<close>

lemma level_entry_None:
  assumes "select_hss_size P_total post_length beam_load beam_width 46 0.9 = Inr None"
  shows "level_entry lvl_bearing k ((post_length, beam_load, beam_width, beam_height), P_total)
           (default_choice ((post_length, beam_load, beam_width, beam_height), P_total))
         = No_suitable_HSS k"
  using assms unfolding select_default
  by (simp add: level_entry_def default_choice_def)

lemma level_entry_Some:
  assumes "select_hss_size P_total post_length beam_load beam_width 46 0.9 =
             Inr (Some (hss, A_hss, S_hss, B_hss))"
  shows "level_entry lvl_bearing k ((post_length, beam_load, beam_width, beam_height), P_total)
           (default_choice ((post_length, beam_load, beam_width, beam_height), P_total))
         = Level_design k hss
             (calculate_plates beam_load (P_total - beam_load) B_hss beam_width beam_height 0
                lvl_bearing 36 0.9 1.6)"
proof -
  have "map_option chosen (find (adequate P_total post_length beam_load beam_width 46 0.9)
          hss_sizes) = Some (hss, A_hss, S_hss, B_hss)"
    using assms unfolding select_default by simp
  then have "default_choice ((post_length, beam_load, beam_width, beam_height), P_total)
               = Some (hss, A_hss, S_hss, B_hss)"
    by (simp add: default_choice_def)
  then show ?thesis
    by (simp add: level_entry_def)
qed

text \<open>When the scan returns the tuple of \<open>None\<close>.\<close>

lemma select_None_iff:
  "select_hss_size P_total L beam_load beam_width F_y phi_c = Inr None \<longleftrightarrow>
     (\<forall>e\<in>set hss_sizes.
        entry_slenderness L e > 200
        \<or> (phi_c * F_y \<noteq> 0 \<and> entry_interaction P_total beam_load beam_width F_y phi_c e > 0.9))"
proof (cases "phi_c * F_y = 0")
  case True
  show ?thesis
    unfolding select_hss_size_def hss_loop_zero_capacity [OF True hss_sizes_positive]
    using True by (simp add: list_all_iff)
next
  case False
  have a: "(\<forall>e\<in>set hss_sizes. \<not> adequate P_total L beam_load beam_width F_y phi_c e) \<longleftrightarrow>
        (\<forall>e\<in>set hss_sizes.
           entry_slenderness L e > 200
           \<or> (phi_c * F_y \<noteq> 0
                \<and> entry_interaction P_total beam_load beam_width F_y phi_c e > 0.9))"
    unfolding adequate_def de_Morgan_conj not_le using False by blast
  have n: "find (adequate P_total L beam_load beam_width F_y phi_c) hss_sizes = None \<longleftrightarrow>
        (\<forall>e\<in>set hss_sizes. \<not> adequate P_total L beam_load beam_width F_y phi_c e)"
    unfolding find_None_iff by blast
  have m: "(Inr (map_option chosen
                   (find (adequate P_total L beam_load beam_width F_y phi_c) hss_sizes))
             = (Inr None :: py_error + hss_choice option)) \<longleftrightarrow>
           find (adequate P_total L beam_load beam_width F_y phi_c) hss_sizes = None"
    by simp
  show ?thesis
    unfolding select_hss_size_def hss_loop_find [OF False hss_sizes_positive] m n
    by (rule a)
qed

lemma process_column_stack_returns:
  "\<exists>rs. process_column_stack cases lvl_bearing = Inr rs"
  by (simp add: process_column_stack_entries)

text \<open>A light level, and a load that no section of the catalog carries.\<close>

lemma find_light:
  "find (adequate 20 144 20 2.5 46 0.9) hss_sizes = Some (''HSS6x6x3/16'', 4.30, 10.3, 6.0, 12.5)"
proof -
  have "slenderness 144 (43 / 10) \<le> 200" by (rule slenderness_short) simp_all
  then show ?thesis
    by (simp add: hss_sizes_def adequate_def entry_slenderness_def entry_interaction_def
          interaction_def Let_def)
qed

lemma select_light:
  "select_hss_size 20 144 20 2.5 46 0.9 = Inr (Some (''HSS6x6x3/16'', 4.30, 10.3, 6.0))"
  unfolding select_default find_light by (simp add: chosen_def)

lemma overloaded_all_fail:
  "\<forall>e\<in>set hss_sizes.
     entry_slenderness 120 e > 200
     \<or> ((0.9 :: real) * 46 \<noteq> 0 \<and> entry_interaction 10020 10000 3 46 0.9 e > 0.9)"
  by (simp add: hss_sizes_def entry_interaction_def interaction_def Let_def)

section \<open>Properties of select_hss_size\<close>

text \<open>
  Claim C1. For every input, a candidate returned by \<open>select_hss_size\<close> is an entry of
  the catalog whose slenderness is at most 200 and whose interaction ratio is at most 0.9,
  and every entry before it has slenderness above 200 or interaction ratio above 0.9.
  Whenever \<open>phi_c * F_y\<close> is not zero (so that the interaction ratio is defined), the
  function returns exactly the first entry of the catalog that meets both bounds, or the
  tuple of \<open>None\<close> when there is none.
\<close>

theorem select_hss_size_first_adequate:
  "(select_hss_size P_total L beam_load beam_width F_y phi_c = Inr (Some r) \<longrightarrow>
       (\<exists>i<length hss_sizes.
           r = chosen (hss_sizes ! i)
           \<and> entry_slenderness L (hss_sizes ! i) \<le> 200
           \<and> entry_interaction P_total beam_load beam_width F_y phi_c (hss_sizes ! i) \<le> 0.9
           \<and> (\<forall>j<i. entry_slenderness L (hss_sizes ! j) > 200
                  \<or> entry_interaction P_total beam_load beam_width F_y phi_c (hss_sizes ! j) > 0.9)))
   \<and> (phi_c * F_y \<noteq> 0 \<longrightarrow>
        select_hss_size P_total L beam_load beam_width F_y phi_c =
          Inr (map_option chosen
                 (find (adequate P_total L beam_load beam_width F_y phi_c) hss_sizes)))"
proof (intro conjI impI)
  assume nz: "phi_c * F_y \<noteq> 0"
  show "select_hss_size P_total L beam_load beam_width F_y phi_c =
          Inr (map_option chosen
                 (find (adequate P_total L beam_load beam_width F_y phi_c) hss_sizes))"
    unfolding select_hss_size_def by (rule hss_loop_find [OF nz hss_sizes_positive])
next
  assume ret: "select_hss_size P_total L beam_load beam_width F_y phi_c = Inr (Some r)"
  then have nz: "phi_c * F_y \<noteq> 0"
    unfolding select_hss_size_def by (rule hss_loop_Some_nonzero [OF hss_sizes_positive])
  from ret hss_loop_find [OF nz hss_sizes_positive, of P_total L beam_load beam_width]
  obtain e where f: "find (adequate P_total L beam_load beam_width F_y phi_c) hss_sizes = Some e"
    and r: "r = chosen e"
    unfolding select_hss_size_def by auto
  from f obtain i where i: "i < length hss_sizes"
    and a: "adequate P_total L beam_load beam_width F_y phi_c (hss_sizes ! i)"
    and e: "e = hss_sizes ! i"
    and b: "\<forall>j<i. \<not> adequate P_total L beam_load beam_width F_y phi_c (hss_sizes ! j)"
    unfolding find_Some_iff by blast
  show "\<exists>i<length hss_sizes.
           r = chosen (hss_sizes ! i)
           \<and> entry_slenderness L (hss_sizes ! i) \<le> 200
           \<and> entry_interaction P_total beam_load beam_width F_y phi_c (hss_sizes ! i) \<le> 0.9
           \<and> (\<forall>j<i. entry_slenderness L (hss_sizes ! j) > 200
                  \<or> entry_interaction P_total beam_load beam_width F_y phi_c (hss_sizes ! j) > 0.9)"
    using i a e b r unfolding adequate_def not_le [symmetric] by blast
qed

theorem select_hss_size_first_adequate_witness:
  "select_hss_size 200 120 56 3 46 0.9 = Inr (Some (''HSS8x8x1/4'', 7.56, 22.4, 8.0))
   \<and> (0.9 :: real) * 46 \<noteq> 0
   \<and> (\<exists>i<length hss_sizes.
         (''HSS8x8x1/4'', 7.56, 22.4, 8.0) = chosen (hss_sizes ! i)
         \<and> entry_slenderness 120 (hss_sizes ! i) \<le> 200
         \<and> entry_interaction 200 56 3 46 0.9 (hss_sizes ! i) \<le> 0.9
         \<and> (\<forall>j<i. entry_slenderness 120 (hss_sizes ! j) > 200
                \<or> entry_interaction 200 56 3 46 0.9 (hss_sizes ! j) > 0.9))
   \<and> select_hss_size 200 120 56 3 46 0.9 =
        Inr (map_option chosen (find (adequate 200 120 56 3 46 0.9) hss_sizes))"
proof -
  note t = select_hss_size_first_adequate
             [of 200 120 56 3 46 "0.9" "(''HSS8x8x1/4'', 7.56, 22.4, 8.0)"]
  have nz: "(0.9 :: real) * 46 \<noteq> 0" by simp
  from t select_heavy have a: "\<exists>i<length hss_sizes.
         (''HSS8x8x1/4'', 7.56, 22.4, 8.0) = chosen (hss_sizes ! i)
         \<and> entry_slenderness 120 (hss_sizes ! i) \<le> 200
         \<and> entry_interaction 200 56 3 46 0.9 (hss_sizes ! i) \<le> 0.9
         \<and> (\<forall>j<i. entry_slenderness 120 (hss_sizes ! j) > 200
                \<or> entry_interaction 200 56 3 46 0.9 (hss_sizes ! j) > 0.9)"
    by blast
  from t nz have b: "select_hss_size 200 120 56 3 46 0.9 =
        Inr (map_option chosen (find (adequate 200 120 56 3 46 0.9) hss_sizes))"
    by blast
  from select_heavy nz a b show ?thesis by blast
qed

text \<open>
  Claim C10. The areas of the catalog increase strictly, so for a fixed length \<open>L > 0\<close>
  the slenderness decreases strictly along the catalog; and for every \<open>L\<close>, once an
  entry passes the test \<open>slenderness \<le> 200\<close>, every later entry passes it: the entries
  rejected for slenderness form a prefix of the catalog.
\<close>

theorem slenderness_rejects_a_prefix:
  "(i < j \<longrightarrow> j < length hss_sizes \<longrightarrow> area_of (hss_sizes ! i) < area_of (hss_sizes ! j))
   \<and> (i < j \<longrightarrow> j < length hss_sizes \<longrightarrow> 0 < L \<longrightarrow>
        entry_slenderness L (hss_sizes ! j) < entry_slenderness L (hss_sizes ! i))
   \<and> (i < j \<longrightarrow> j < length hss_sizes \<longrightarrow> entry_slenderness L (hss_sizes ! i) \<le> 200 \<longrightarrow>
        entry_slenderness L (hss_sizes ! j) \<le> 200)"
proof -
  have inc: "area_of (hss_sizes ! i) < area_of (hss_sizes ! j)"
    if "i < j" "j < length hss_sizes"
    using sorted_wrt_nth_less [OF hss_sizes_areas, of i j] that by simp
  have dec: "entry_slenderness L (hss_sizes ! j) < entry_slenderness L (hss_sizes ! i)"
    if "i < j" "j < length hss_sizes" "0 < L"
    unfolding entry_slenderness_area
    using slenderness_decreasing [OF hss_sizes_area_positive inc [OF that(1,2)] that(3)] that
    by simp
  have pre: "entry_slenderness L (hss_sizes ! j) \<le> 200"
    if "i < j" "j < length hss_sizes" "entry_slenderness L (hss_sizes ! i) \<le> 200"
  proof (cases "0 < L")
    case True
    from dec [OF that(1,2) True] that(3) show ?thesis by linarith
  next
    case False
    then have "L \<le> 0" by simp
    from slenderness_nonpositive [OF hss_sizes_area_positive [OF that(2)] this]
    show ?thesis unfolding entry_slenderness_area by linarith
  qed
  from inc dec pre show ?thesis by blast
qed

theorem slenderness_rejects_a_prefix_witness:
  "(2 :: nat) < 3 \<and> 3 < length hss_sizes \<and> (0 :: real) < 200
   \<and> entry_slenderness 200 (hss_sizes ! 2) \<le> 200
   \<and> area_of (hss_sizes ! 2) < area_of (hss_sizes ! 3)
   \<and> entry_slenderness 200 (hss_sizes ! 3) < entry_slenderness 200 (hss_sizes ! 2)
   \<and> entry_slenderness 200 (hss_sizes ! 3) \<le> 200"
proof -
  note t = slenderness_rejects_a_prefix [where i = 2 and j = 3 and L = 200]
  have l: "3 < length hss_sizes" by (simp add: hss_sizes_def)
  have "5 / 2 \<le> sqrt (189 / 25)"
    by (rule real_le_rsqrt) (simp add: power2_eq_square)
  then have s: "entry_slenderness 200 (hss_sizes ! 2) \<le> 200"
    by (simp add: hss_sizes_def entry_slenderness_def slenderness_def K_def r_factor_def
          field_simps)
  from t l s show ?thesis by simp
qed

section \<open>The first level of the example stack\<close>

text \<open>
  Claim C2, as stated: for \<open>L = 120\<close>, \<open>beam_load = 56\<close>, \<open>beam_width = 3\<close> and the
  total 116.1 kips, \<open>select_hss_size\<close> returns HSS8x8x1/4. It does not: the first
  entry, HSS6x6x3/16, has slenderness below 200 and interaction ratio 6035/7107, about
  0.849, and is returned.
\<close>

theorem example_level_1_selects_HSS8x8_counterexample:
  "select_hss_size 116.1 120 56 3 46 0.9 \<noteq> Inr (Some (''HSS8x8x1/4'', 7.56, 22.4, 8.0))"
  unfolding select_demo by simp

text \<open>
  Claim C2, amended: for these inputs \<open>select_hss_size\<close> returns HSS6x6x3/16, and the
  plate design for that section (\<open>P_upper = 116.1 - 56\<close>, \<open>B_hss = 6\<close>,
  \<open>beam_height = 12\<close>, defaults otherwise) is not an error: the cap plate is 8 in wide,
  23.5 in long and 0.625 in thick, the bearing plates are 1 in thick.
\<close>

theorem example_level_1:
  "select_hss_size 116.1 120 56 3 46 0.9 = Inr (Some (''HSS6x6x3/16'', 4.30, 10.3, 6.0))
   \<and> calculate_plates 56 (116.1 - 56) 6.0 3 12 0 500 36 0.9 1.6 =
       [(''Cap Plate'', Dimensions 8 23.5 0.625),
        (''Bearing Plates'', Dimensions 6 12 1),
        (''LVL Bearing Stress'', Psi (35000 / 70.5)),
        (''Weld Size'', Inches (3 / 16))]"
proof -
  have "(116.1 - 56 :: real) = 60.1" by simp
  then show ?thesis
    using select_demo calculate_plates_of_Inr [OF plates_example] by simp
qed

section \<open>Properties of calculate_plates\<close>

text \<open>
  Claim C4. In every result of \<open>calculate_plates\<close> that is not an error, the bearing
  length N is \<open>max((P_beam / load_factor) * 1000 / lvl_bearing / beam_width, B_hss)\<close>
  rounded up to a quarter inch, the bearing stress reported is
  \<open>(P_beam / load_factor) * 1000 / (beam_width * N)\<close>, and it is at most \<open>lvl_bearing\<close>.
  Whenever that recomputed stress exceeds \<open>lvl_bearing\<close>, the function returns a
  dictionary with the single key \<open>Error\<close>.
\<close>

theorem bearing_length_and_stress:
  "(calculate_plates_try P_beam P_upper B_hss beam_width beam_height beam_offset
        lvl_bearing F_y phi load_factor = Inr d \<longrightarrow>
      pd_N d = of_int \<lceil>max (P_beam / load_factor * 1000 / lvl_bearing / beam_width) B_hss
                          * 4\<rceil> / 4
      \<and> pd_bearing_stress d = P_beam / load_factor * 1000 / (beam_width * pd_N d)
      \<and> pd_bearing_stress d \<le> lvl_bearing)
   \<and> (P_beam / load_factor * 1000
         / (beam_width * (of_int \<lceil>max (P_beam / load_factor * 1000 / lvl_bearing / beam_width)
                                     B_hss * 4\<rceil> / 4)) > lvl_bearing \<longrightarrow>
        (\<exists>e. calculate_plates P_beam P_upper B_hss beam_width beam_height beam_offset
               lvl_bearing F_y phi load_factor = [(''Error'', Message e)]))"
proof (intro conjI impI)
  assume r: "calculate_plates_try P_beam P_upper B_hss beam_width beam_height beam_offset
        lvl_bearing F_y phi load_factor = Inr d"
  note f = calculate_plates_try_Inr [OF r]
  show "pd_N d = of_int \<lceil>max (P_beam / load_factor * 1000 / lvl_bearing / beam_width) B_hss
                          * 4\<rceil> / 4"
    by (simp only: f(2) bearing_length_def ceil_def Let_def)
  show "pd_bearing_stress d = P_beam / load_factor * 1000 / (beam_width * pd_N d)"
    by (simp add: f(5) f(2))
  show "pd_bearing_stress d \<le> lvl_bearing" by (rule f(6))
next
  assume "P_beam / load_factor * 1000
         / (beam_width * (of_int \<lceil>max (P_beam / load_factor * 1000 / lvl_bearing / beam_width)
                                     B_hss * 4\<rceil> / 4)) > lvl_bearing"
  then have s: "P_beam / load_factor * 1000
         / (beam_width * bearing_length P_beam B_hss beam_width lvl_bearing load_factor)
         > lvl_bearing"
    by (simp only: bearing_length_def ceil_def Let_def)
  have "\<exists>e. calculate_plates_try P_beam P_upper B_hss beam_width beam_height beam_offset
        lvl_bearing F_y phi load_factor = Inl e"
    unfolding calculate_plates_try_eq using s by simp
  then show "\<exists>e. calculate_plates P_beam P_upper B_hss beam_width beam_height beam_offset
               lvl_bearing F_y phi load_factor = [(''Error'', Message e)]"
    by (auto simp: calculate_plates_def)
qed

theorem bearing_length_and_stress_witness:
  "calculate_plates_try 56 60.1 6 3 12 0 500 36 0.9 1.6 =
     Inr \<lparr>pd_B = 8, pd_N = 23.5, pd_t_cap = 0.625,
            pd_bearing_width = 6, pd_bearing_height = 12, pd_t_bearing = 1,
            pd_bearing_stress = 35000 / 70.5, pd_weld_size = 3 / 16\<rparr>
   \<and> (23.5 :: real) = of_int \<lceil>max (56 / 1.6 * 1000 / 500 / 3) 6 * 4 :: real\<rceil> / 4
   \<and> (35000 / 70.5 :: real) = 56 / 1.6 * 1000 / (3 * 23.5)
   \<and> (35000 / 70.5 :: real) \<le> 500
   \<and> (56 / 1.6 * 1000 / (3 * (of_int \<lceil>max (56 / 1.6 * 1000 / (- 500) / 3) 6 * 4 :: real\<rceil> / 4))
        > (- 500 :: real))
   \<and> (\<exists>e. calculate_plates 56 60.1 6 3 12 0 (- 500) 36 0.9 1.6 = [(''Error'', Message e)])"
proof -
  have a: "(23.5 :: real) = of_int \<lceil>max (56 / 1.6 * 1000 / 500 / 3) 6 * 4 :: real\<rceil> / 4
     \<and> (35000 / 70.5 :: real) = 56 / 1.6 * 1000 / (3 * 23.5)
     \<and> (35000 / 70.5 :: real) \<le> 500"
    using bearing_length_and_stress [where P_beam = 56 and P_upper = "60.1" and B_hss = 6
        and beam_width = 3 and beam_height = 12 and beam_offset = 0 and lvl_bearing = 500
        and F_y = 36 and phi = "0.9" and load_factor = "1.6" and d =
        "\<lparr>pd_B = 8, pd_N = 23.5, pd_t_cap = 0.625,
            pd_bearing_width = 6, pd_bearing_height = 12, pd_t_bearing = 1,
            pd_bearing_stress = 35000 / 70.5, pd_weld_size = 3 / 16\<rparr>"]
      plates_example
    by simp
  have h: "(56 / 1.6 * 1000
        / (3 * (of_int \<lceil>max (56 / 1.6 * 1000 / (- 500) / 3) 6 * 4 :: real\<rceil> / 4))
        > (- 500 :: real))"
    by simp
  have b: "\<exists>e. calculate_plates 56 60.1 6 3 12 0 (- 500) 36 0.9 1.6 = [(''Error'', Message e)]"
    using bearing_length_and_stress [where P_beam = 56 and P_upper = "60.1" and B_hss = 6
        and beam_width = 3 and beam_height = 12 and beam_offset = 0 and lvl_bearing = "- 500"
        and F_y = 36 and phi = "0.9" and load_factor = "1.6"] h
    by blast
  show ?thesis using plates_example a h b by blast
qed

text \<open>
  Claim C6. In every result that is not an error, the cap plate thickness is what the
  source computes from the raw value \<open>l * sqrt(2 * (P_beam + P_upper) / (phi * F_y * B * N))\<close>
  by rounding to eighths, taking the maximum with 0.375 and adding 0.125 when the result
  is below the raw value; this equals the raw value rounded up to an eighth with a
  minimum of 3/8, and it is at least the larger of the raw value and 0.375.
\<close>

theorem cap_plate_thickness:
  "calculate_plates_try P_beam P_upper B_hss beam_width beam_height beam_offset
        lvl_bearing F_y phi load_factor = Inr d \<longrightarrow>
     (let l = cantilever B_hss beam_width beam_offset;
          raw = l * sqrt (2 * (P_beam + P_upper) / (phi * F_y * pd_B d * pd_N d));
          rounded = max (of_int (py_round (raw * 8)) / 8) 0.375
      in pd_t_cap d = (if rounded < raw then rounded + 0.125 else rounded)
         \<and> pd_t_cap d = max (of_int \<lceil>raw * 8\<rceil> / 8) 0.375
         \<and> max raw 0.375 \<le> pd_t_cap d)"
proof
  assume r: "calculate_plates_try P_beam P_upper B_hss beam_width beam_height beam_offset
        lvl_bearing F_y phi load_factor = Inr d"
  note f = calculate_plates_try_Inr [OF r]
  define raw where
    "raw = cantilever B_hss beam_width beam_offset
             * sqrt (2 * (P_beam + P_upper) / (phi * F_y * pd_B d * pd_N d))"
  have t: "pd_t_cap d = max (of_int \<lceil>raw * 8\<rceil> / 8) (3 / 8)"
    unfolding raw_def f(1) f(2) using f(3) by (simp add: cap_required_def)
  have c: "(let t = max (of_int (py_round (raw * 8)) / 8) 0.375
            in if t < raw then t + 0.125 else t) = pd_t_cap d"
    unfolding t by (rule cap_final)
  have "raw * 8 \<le> of_int \<lceil>raw * 8\<rceil>" by (rule le_of_int_ceiling)
  then have b: "max raw 0.375 \<le> pd_t_cap d"
    unfolding t by (simp add: max_def)
  show "let l = cantilever B_hss beam_width beam_offset;
          raw = l * sqrt (2 * (P_beam + P_upper) / (phi * F_y * pd_B d * pd_N d));
          rounded = max (of_int (py_round (raw * 8)) / 8) 0.375
      in pd_t_cap d = (if rounded < raw then rounded + 0.125 else rounded)
         \<and> pd_t_cap d = max (of_int \<lceil>raw * 8\<rceil> / 8) 0.375
         \<and> max raw 0.375 \<le> pd_t_cap d"
    using t c b unfolding Let_def raw_def [symmetric] by simp
qed

theorem cap_plate_thickness_witness:
  "calculate_plates_try 56 60.1 6 3 12 0 500 36 0.9 1.6 =
     Inr \<lparr>pd_B = 8, pd_N = 23.5, pd_t_cap = 0.625,
            pd_bearing_width = 6, pd_bearing_height = 12, pd_t_bearing = 1,
            pd_bearing_stress = 35000 / 70.5, pd_weld_size = 3 / 16\<rparr>
   \<and> (0.625 :: real) = max (of_int \<lceil>3 * sqrt (2 * (56 + 60.1) / (0.9 * 36 * 8 * 23.5)) * 8\<rceil> / 8) 0.375
   \<and> max (3 * sqrt (2 * (56 + 60.1) / (0.9 * 36 * 8 * 23.5))) 0.375 \<le> (0.625 :: real)"
proof -
  have "(0.625 :: real) = max (of_int \<lceil>3 * sqrt (2 * (56 + 60.1) / (0.9 * 36 * 8 * 23.5)) * 8\<rceil> / 8) 0.375
   \<and> max (3 * sqrt (2 * (56 + 60.1) / (0.9 * 36 * 8 * 23.5))) 0.375 \<le> (0.625 :: real)"
    using cap_plate_thickness [where P_beam = 56 and P_upper = "60.1" and B_hss = 6
        and beam_width = 3 and beam_height = 12 and beam_offset = 0 and lvl_bearing = 500
        and F_y = 36 and phi = "0.9" and load_factor = "1.6" and d =
        "\<lparr>pd_B = 8, pd_N = 23.5, pd_t_cap = 0.625,
            pd_bearing_width = 6, pd_bearing_height = 12, pd_t_bearing = 1,
            pd_bearing_stress = 35000 / 70.5, pd_weld_size = 3 / 16\<rparr>"]
      plates_example
    unfolding cantilever_example Let_def
    by simp
  then show ?thesis using plates_example by blast
qed

text \<open>
  Claim C7. \<open>calculate_plates\<close> returns a dictionary for every input: either the single
  key \<open>Error\<close>, or the four keys of a plate design. Every exception raised in the
  \<open>try\<close> block gives the \<open>Error\<close> dictionary with that exception; in particular a zero
  \<open>phi * F_y * B * N\<close> and a bearing stress above \<open>lvl_bearing\<close> do.
\<close>

theorem calculate_plates_total:
  "(map fst (calculate_plates P_beam P_upper B_hss beam_width beam_height beam_offset
              lvl_bearing F_y phi load_factor) = [''Error'']
    \<or> map fst (calculate_plates P_beam P_upper B_hss beam_width beam_height beam_offset
              lvl_bearing F_y phi load_factor)
        = [''Cap Plate'', ''Bearing Plates'', ''LVL Bearing Stress'', ''Weld Size''])
   \<and> (phi * F_y * cap_width B_hss beam_width
         * bearing_length P_beam B_hss beam_width lvl_bearing load_factor = 0 \<longrightarrow>
       map fst (calculate_plates P_beam P_upper B_hss beam_width beam_height beam_offset
              lvl_bearing F_y phi load_factor) = [''Error''])
   \<and> (P_beam / load_factor * 1000
         / (beam_width * bearing_length P_beam B_hss beam_width lvl_bearing load_factor)
         > lvl_bearing \<longrightarrow>
       map fst (calculate_plates P_beam P_upper B_hss beam_width beam_height beam_offset
              lvl_bearing F_y phi load_factor) = [''Error''])
   \<and> (\<forall>e. calculate_plates_try P_beam P_upper B_hss beam_width beam_height beam_offset
              lvl_bearing F_y phi load_factor = Inl e \<longrightarrow>
          calculate_plates P_beam P_upper B_hss beam_width beam_height beam_offset
              lvl_bearing F_y phi load_factor = [(''Error'', Message e)])"
proof (intro conjI impI allI)
  show "map fst (calculate_plates P_beam P_upper B_hss beam_width beam_height beam_offset
              lvl_bearing F_y phi load_factor) = [''Error'']
    \<or> map fst (calculate_plates P_beam P_upper B_hss beam_width beam_height beam_offset
              lvl_bearing F_y phi load_factor)
        = [''Cap Plate'', ''Bearing Plates'', ''LVL Bearing Stress'', ''Weld Size'']"
    by (cases "calculate_plates_try P_beam P_upper B_hss beam_width beam_height beam_offset
              lvl_bearing F_y phi load_factor")
       (simp_all add: calculate_plates_def)
next
  assume "phi * F_y * cap_width B_hss beam_width
         * bearing_length P_beam B_hss beam_width lvl_bearing load_factor = 0"
  then have "\<exists>e. calculate_plates_try P_beam P_upper B_hss beam_width beam_height beam_offset
              lvl_bearing F_y phi load_factor = Inl e"
    unfolding calculate_plates_try_eq by simp
  then show "map fst (calculate_plates P_beam P_upper B_hss beam_width beam_height beam_offset
              lvl_bearing F_y phi load_factor) = [''Error'']"
    by (auto simp: calculate_plates_def)
next
  assume "P_beam / load_factor * 1000
         / (beam_width * bearing_length P_beam B_hss beam_width lvl_bearing load_factor)
         > lvl_bearing"
  then have "\<exists>e. calculate_plates_try P_beam P_upper B_hss beam_width beam_height beam_offset
              lvl_bearing F_y phi load_factor = Inl e"
    unfolding calculate_plates_try_eq by simp
  then show "map fst (calculate_plates P_beam P_upper B_hss beam_width beam_height beam_offset
              lvl_bearing F_y phi load_factor) = [''Error'']"
    by (auto simp: calculate_plates_def)
next
  fix e
  assume "calculate_plates_try P_beam P_upper B_hss beam_width beam_height beam_offset
              lvl_bearing F_y phi load_factor = Inl e"
  then show "calculate_plates P_beam P_upper B_hss beam_width beam_height beam_offset
              lvl_bearing F_y phi load_factor = [(''Error'', Message e)]"
    by (rule calculate_plates_of_Inl)
qed

theorem calculate_plates_total_witness:
  "(0 :: real) * 36 * cap_width 6 3 * bearing_length 56 6 3 500 1.6 = 0
   \<and> map fst (calculate_plates 56 60.1 6 3 12 0 500 36 0 1.6) = [''Error'']
   \<and> 56 / 1.6 * 1000 / (3 * bearing_length 56 6 3 (- 500) 1.6) > (- 500 :: real)
   \<and> map fst (calculate_plates 56 60.1 6 3 12 0 (- 500) 36 0.9 1.6) = [''Error'']
   \<and> calculate_plates_try 56 60.1 6 3 12 0 (- 500) 36 0.9 1.6 =
        Inl (ValueError (Bearing_stress_exceeds (35000 / 18) (- 500)))
   \<and> calculate_plates 56 60.1 6 3 12 0 (- 500) 36 0.9 1.6 =
        [(''Error'', Message (ValueError (Bearing_stress_exceeds (35000 / 18) (- 500))))]"
proof -
  note z = calculate_plates_total [where P_beam = 56 and P_upper = "60.1" and B_hss = 6
        and beam_width = 3 and beam_height = 12 and beam_offset = 0 and lvl_bearing = 500
        and F_y = 36 and phi = 0 and load_factor = "1.6"]
  note s = calculate_plates_total [where P_beam = 56 and P_upper = "60.1" and B_hss = 6
        and beam_width = 3 and beam_height = 12 and beam_offset = 0 and lvl_bearing = "- 500"
        and F_y = 36 and phi = "0.9" and load_factor = "1.6"]
  have h1: "(0 :: real) * 36 * cap_width 6 3 * bearing_length 56 6 3 500 1.6 = 0" by simp
  have h2: "56 / 1.6 * 1000 / (3 * bearing_length 56 6 3 (- 500) 1.6) > (- 500 :: real)"
    by (simp add: bearing_length_def ceil_def Let_def)
  from z h1 have a: "map fst (calculate_plates 56 60.1 6 3 12 0 500 36 0 1.6) = [''Error'']"
    by blast
  from s h2 have b: "map fst (calculate_plates 56 60.1 6 3 12 0 (- 500) 36 0.9 1.6) = [''Error'']"
    by blast
  from s plates_stress have c: "calculate_plates 56 60.1 6 3 12 0 (- 500) 36 0.9 1.6 =
        [(''Error'', Message (ValueError (Bearing_stress_exceeds (35000 / 18) (- 500))))]"
    by blast
  from h1 a h2 b plates_stress c show ?thesis by blast
qed

text \<open>
  Claim C9, as stated: the bearing plates of every result that is not an error are at
  least 1 in thick. With a negative width \<open>B_hss = -6\<close> and nothing from above the
  capacity \<open>0.75 * 1.8 * F_y * B_hss\<close> is negative, the resize branch is taken, and the
  result is a design with bearing plates of thickness 0.
\<close>

theorem bearing_plate_below_one_inch_counterexample:
  "calculate_plates 56 0 (- 6) 3 12 0 500 36 0.9 1.6 =
       [(''Cap Plate'', Dimensions 5 23.5 1),
        (''Bearing Plates'', Dimensions (- 6) 12 0),
        (''LVL Bearing Stress'', Psi (35000 / 70.5)),
        (''Weld Size'', Inches (3 / 16))]
   \<and> \<not> (1 :: real) \<le> 0"
  using calculate_plates_of_Inr [OF plates_negative] by simp

text \<open>
  Claim C9, amended: whenever \<open>F_y * B_hss\<close> is positive (as for every width of the
  catalog with the default \<open>F_y = 36\<close>), the bearing plate thickness of a result that is
  not an error is at least 1; in the resize branch it is the value computed by rounding
  and the re-check, at least the required thickness and strictly above 1; otherwise it
  is 1.
\<close>

theorem bearing_plate_thickness:
  "calculate_plates_try P_beam P_upper B_hss beam_width beam_height beam_offset
        lvl_bearing F_y phi load_factor = Inr d \<longrightarrow> 0 < F_y * B_hss \<longrightarrow>
     1 \<le> pd_t_bearing d
     \<and> (0.75 * 1.8 * F_y * (B_hss * 1.0) < P_upper / 2 \<longrightarrow>
          (let raw = (P_upper / 2) / (0.75 * 1.8 * F_y * B_hss);
               rounded = of_int (py_round (raw * 8)) / 8
           in pd_t_bearing d = (if rounded < raw then rounded + 0.125 else rounded)
              \<and> raw \<le> pd_t_bearing d \<and> 1 < pd_t_bearing d))
     \<and> (\<not> 0.75 * 1.8 * F_y * (B_hss * 1.0) < P_upper / 2 \<longrightarrow> pd_t_bearing d = 1.0)"
proof (intro impI)
  assume r: "calculate_plates_try P_beam P_upper B_hss beam_width beam_height beam_offset
        lvl_bearing F_y phi load_factor = Inr d"
    and pos: "0 < F_y * B_hss"
  note f = calculate_plates_try_Inr [OF r]
  define raw where "raw = (P_upper / 2) / (0.75 * 1.8 * F_y * B_hss)"
  have raw: "bearing_required P_upper F_y B_hss = raw"
    by (simp add: raw_def bearing_required_def)
  have t: "pd_t_bearing d =
             (if 0.75 * 1.8 * F_y * B_hss < P_upper / 2 then of_int \<lceil>raw * 8\<rceil> / 8 else 1)"
    using f(4) unfolding raw .
  have up: "raw \<le> of_int \<lceil>raw * 8\<rceil> / 8"
    using le_of_int_ceiling [of "raw * 8"] by simp
  have big: "1 < raw" if "0.75 * 1.8 * F_y * B_hss < P_upper / 2"
  proof -
    have "0 < 0.75 * 1.8 * F_y * B_hss" using pos by (simp add: mult.assoc)
    with that show ?thesis unfolding raw_def by (simp add: field_simps)
  qed
  have a: "1 \<le> pd_t_bearing d"
    using t up big by (auto split: if_splits)
  have b: "0.75 * 1.8 * F_y * (B_hss * 1.0) < P_upper / 2 \<longrightarrow>
             pd_t_bearing d = (if of_int (py_round (raw * 8)) / 8 < raw
                                then of_int (py_round (raw * 8)) / 8 + 0.125
                                else of_int (py_round (raw * 8)) / 8)
             \<and> raw \<le> pd_t_bearing d \<and> 1 < pd_t_bearing d"
  proof
    assume "0.75 * 1.8 * F_y * (B_hss * 1.0) < P_upper / 2"
    then have c: "0.75 * 1.8 * F_y * B_hss < P_upper / 2" by simp
    then have e: "pd_t_bearing d = of_int \<lceil>raw * 8\<rceil> / 8" using t by simp
    have x: "raw \<le> pd_t_bearing d" unfolding e by (rule up)
    have y: "1 < pd_t_bearing d" using x big [OF c] by linarith
    have z: "pd_t_bearing d = (if of_int (py_round (raw * 8)) / 8 < raw
                                then of_int (py_round (raw * 8)) / 8 + 0.125
                                else of_int (py_round (raw * 8)) / 8)"
      unfolding bump_eighth by (rule e)
    from z x y
    show "pd_t_bearing d = (if of_int (py_round (raw * 8)) / 8 < raw
                                then of_int (py_round (raw * 8)) / 8 + 0.125
                                else of_int (py_round (raw * 8)) / 8)
             \<and> raw \<le> pd_t_bearing d \<and> 1 < pd_t_bearing d"
      by blast
  qed
  have c: "\<not> 0.75 * 1.8 * F_y * (B_hss * 1.0) < P_upper / 2 \<longrightarrow> pd_t_bearing d = 1.0"
    using t by simp
  show "1 \<le> pd_t_bearing d
     \<and> (0.75 * 1.8 * F_y * (B_hss * 1.0) < P_upper / 2 \<longrightarrow>
          (let raw = (P_upper / 2) / (0.75 * 1.8 * F_y * B_hss);
               rounded = of_int (py_round (raw * 8)) / 8
           in pd_t_bearing d = (if rounded < raw then rounded + 0.125 else rounded)
              \<and> raw \<le> pd_t_bearing d \<and> 1 < pd_t_bearing d))
     \<and> (\<not> 0.75 * 1.8 * F_y * (B_hss * 1.0) < P_upper / 2 \<longrightarrow> pd_t_bearing d = 1.0)"
    unfolding Let_def raw_def [symmetric] using a b c by blast
qed

theorem bearing_plate_thickness_witness:
  "calculate_plates_try 56 700 6 3 12 0 500 36 0.9 1.6 =
     Inr \<lparr>pd_B = 8, pd_N = 23.5, pd_t_cap = 1.5,
            pd_bearing_width = 6, pd_bearing_height = 12, pd_t_bearing = 1.25,
            pd_bearing_stress = 35000 / 70.5, pd_weld_size = 23 / 16\<rparr>
   \<and> (0 :: real) < 36 * 6
   \<and> (0.75 * 1.8 * 36 * (6 * 1.0) :: real) < 700 / 2
   \<and> (700 / 2) / (0.75 * 1.8 * 36 * 6) \<le> (1.25 :: real)
   \<and> (1 :: real) < 1.25"
proof -
  note t = bearing_plate_thickness [where P_beam = 56 and P_upper = 700 and B_hss = 6
        and beam_width = 3 and beam_height = 12 and beam_offset = 0 and lvl_bearing = 500
        and F_y = 36 and phi = "0.9" and load_factor = "1.6" and d =
        "\<lparr>pd_B = 8, pd_N = 23.5, pd_t_cap = 1.5,
            pd_bearing_width = 6, pd_bearing_height = 12, pd_t_bearing = 1.25,
            pd_bearing_stress = 35000 / 70.5, pd_weld_size = 23 / 16\<rparr>"]
  have p: "(0 :: real) < 36 * 6" by simp
  have h: "(0.75 * 1.8 * 36 * (6 * 1.0) :: real) < 700 / 2" by simp
  from t plates_heavy p h
  have "(700 / 2) / (0.75 * 1.8 * 36 * 6) \<le> (1.25 :: real) \<and> (1 :: real) < 1.25"
    unfolding Let_def by simp
  with plates_heavy p h show ?thesis by blast
qed

text \<open>
  Claim C3, evaluated on the first level of the example stack,
  \<open>calculate_plates(56, 60.1, 6.0, 3, 12)\<close>: the weld demand exceeds the capacity of a
  3/16 in weld, the weld is resized, and the size reported is 3/16 again, below the size
  required. The weld size is rounded to the nearest sixteenth, and unlike the two plate
  thicknesses it is not compared with the required value afterwards.
\<close>

theorem weld_size_below_required:
  "0.75 * 0.707 * (3 / 16) * 0.6 * 70 < weld_demand 56 60.1 6
   \<and> calculate_plates 56 60.1 6 3 12 0 500 36 0.9 1.6 =
       [(''Cap Plate'', Dimensions 8 23.5 0.625),
        (''Bearing Plates'', Dimensions 6 12 1),
        (''LVL Bearing Stress'', Psi (35000 / 70.5)),
        (''Weld Size'', Inches (3 / 16))]
   \<and> 3 / 16 < weld_required 56 60.1 6"
proof -
  have "0.75 * 0.707 * (3 / 16) * 0.6 * 70 < weld_demand 56 60.1 6"
    by (simp add: weld_demand_def Let_def)
  moreover have "3 / 16 < weld_required 56 60.1 6"
    by (simp add: weld_required_def weld_demand_def Let_def)
  ultimately show ?thesis
    using calculate_plates_of_Inr [OF plates_example] by simp
qed

section \<open>Properties of process_column_stack\<close>

text \<open>
  Claim C5. For every list of cases, \<open>total_loads\<close> has one entry per case, and the
  entry of level \<open>i\<close> (counted from 0 here, the bottom level first) is the sum of the beam
  loads of the levels \<open>i\<close> and above. Where a section is selected for level \<open>i\<close>, the
  plates are sized with that level's beam load as \<open>P_beam\<close> and the cumulative total
  minus that beam load as \<open>P_upper\<close>.
\<close>

theorem cumulative_loads:
  "length (total_loads_of cases) = length cases
   \<and> (i < length cases \<longrightarrow>
        total_loads_of cases ! i = sum_list (map beam_load_of (drop i cases)))
   \<and> (i < length cases \<longrightarrow>
        cases ! i = (post_length, beam_load, beam_width, beam_height) \<longrightarrow>
        select_hss_size (sum_list (map beam_load_of (drop i cases)))
            post_length beam_load beam_width 46 0.9
          = Inr (Some (hss, A_hss, S_hss, B_hss)) \<longrightarrow>
        (\<exists>rs. process_column_stack cases lvl_bearing = Inr rs
           \<and> rs ! i =
               Level_design (i + 1) hss
                 (calculate_plates beam_load
                    (sum_list (map beam_load_of (drop i cases)) - beam_load)
                    B_hss beam_width beam_height 0 lvl_bearing 36 0.9 1.6)))"
proof (intro conjI impI)
  show "length (total_loads_of cases) = length cases"
    by (rule total_loads_of_length)
next
  assume "i < length cases"
  then show "total_loads_of cases ! i = sum_list (map beam_load_of (drop i cases))"
    by (rule total_loads_of_nth)
next
  assume i: "i < length cases"
    and c: "cases ! i = (post_length, beam_load, beam_width, beam_height)"
    and s: "select_hss_size (sum_list (map beam_load_of (drop i cases)))
              post_length beam_load beam_width 46 0.9
            = Inr (Some (hss, A_hss, S_hss, B_hss))"
  obtain rs where rs: "process_column_stack cases lvl_bearing = Inr rs"
    using process_column_stack_returns by blast
  have "rs ! i =
          Level_design (i + 1) hss
            (calculate_plates beam_load
               (sum_list (map beam_load_of (drop i cases)) - beam_load)
               B_hss beam_width beam_height 0 lvl_bearing 36 0.9 1.6)"
    unfolding process_column_stack_nth [OF rs i] c total_loads_of_nth [OF i]
    by (rule level_entry_Some [OF s])
  with rs show "\<exists>rs. process_column_stack cases lvl_bearing = Inr rs
           \<and> rs ! i =
               Level_design (i + 1) hss
                 (calculate_plates beam_load
                    (sum_list (map beam_load_of (drop i cases)) - beam_load)
                    B_hss beam_width beam_height 0 lvl_bearing 36 0.9 1.6)"
    by blast
qed

theorem cumulative_loads_witness:
  "(0 :: nat) < length [(120, 56, 3, 12), (96, 40, 3.5, 14), (144, 20, 2.5, 10),
                        (144, 0.1, 2.5, 10 :: real)]
   \<and> total_loads_of [(120, 56, 3, 12), (96, 40, 3.5, 14), (144, 20, 2.5, 10),
                       (144, 0.1, 2.5, 10)] ! 0 = 116.1
   \<and> select_hss_size 116.1 120 56 3 46 0.9 = Inr (Some (''HSS6x6x3/16'', 4.30, 10.3, 6.0))
   \<and> (\<exists>rs. process_column_stack [(120, 56, 3, 12), (96, 40, 3.5, 14), (144, 20, 2.5, 10),
                                   (144, 0.1, 2.5, 10)] 500 = Inr rs
          \<and> rs ! 0 = Level_design 1 ''HSS6x6x3/16''
                        (calculate_plates 56 (116.1 - 56) 6.0 3 12 0 500 36 0.9 1.6))"
proof -
  define cases :: "stack_case list" where
    "cases = [(120, 56, 3, 12), (96, 40, 3.5, 14), (144, 20, 2.5, 10), (144, 0.1, 2.5, 10)]"
  note t = cumulative_loads [where cases = cases and i = 0 and post_length = 120
      and beam_load = 56 and beam_width = 3 and beam_height = 12
      and hss = "''HSS6x6x3/16''" and A_hss = "4.30" and S_hss = "10.3" and B_hss = "6.0"
      and lvl_bearing = 500]
  have l: "0 < length cases" by (simp add: cases_def)
  have c: "cases ! 0 = (120, 56, 3, 12)" by (simp add: cases_def)
  have s: "sum_list (map beam_load_of (drop 0 cases)) = 116.1"
    by (simp add: cases_def beam_load_of_def)
  from t l s have a: "total_loads_of cases ! 0 = 116.1" by simp
  from t l c select_demo
  have b: "\<exists>rs. process_column_stack cases 500 = Inr rs
          \<and> rs ! 0 = Level_design 1 ''HSS6x6x3/16''
                        (calculate_plates 56 (116.1 - 56) 6.0 3 12 0 500 36 0.9 1.6)"
    unfolding s by simp
  from l a select_demo b show ?thesis unfolding cases_def by blast
qed

text \<open>
  Claim C8. \<open>select_hss_size\<close> returns the tuple of \<open>None\<close> exactly when the scan
  rejects every entry of the catalog (slenderness above 200, or interaction ratio above
  0.9). \<open>process_column_stack\<close> always returns, with one entry per case in the order of
  the cases: the entry of a level for which no section was found is the error entry with
  that level's number, and the entry of every other level is its design, whatever
  happened at the levels before it.
\<close>

theorem no_section_is_recorded_and_the_stack_goes_on:
  "(select_hss_size P_total L beam_load beam_width F_y phi_c = Inr None \<longleftrightarrow>
      (\<forall>e\<in>set hss_sizes.
         entry_slenderness L e > 200
         \<or> (phi_c * F_y \<noteq> 0
              \<and> entry_interaction P_total beam_load beam_width F_y phi_c e > 0.9)))
   \<and> (\<exists>rs. process_column_stack cases lvl_bearing = Inr rs
         \<and> length rs = length cases
         \<and> (\<forall>i<length cases. \<forall>post_length b beam_w beam_h.
               cases ! i = (post_length, b, beam_w, beam_h) \<longrightarrow>
                 (select_hss_size (total_loads_of cases ! i) post_length b beam_w 46 0.9
                    = Inr None \<longrightarrow>
                  rs ! i = No_suitable_HSS (i + 1))
                 \<and> (\<forall>hss A_hss S_hss B_hss.
                      select_hss_size (total_loads_of cases ! i) post_length b beam_w 46 0.9
                        = Inr (Some (hss, A_hss, S_hss, B_hss)) \<longrightarrow>
                      rs ! i =
                        Level_design (i + 1) hss
                          (calculate_plates b (total_loads_of cases ! i - b) B_hss
                             beam_w beam_h 0 lvl_bearing 36 0.9 1.6))))"
proof (rule conjI)
  show "select_hss_size P_total L beam_load beam_width F_y phi_c = Inr None \<longleftrightarrow>
      (\<forall>e\<in>set hss_sizes.
         entry_slenderness L e > 200
         \<or> (phi_c * F_y \<noteq> 0
              \<and> entry_interaction P_total beam_load beam_width F_y phi_c e > 0.9))"
    by (rule select_None_iff)
next
  obtain rs where rs: "process_column_stack cases lvl_bearing = Inr rs"
    using process_column_stack_returns by blast
  have len: "length rs = length cases"
    by (rule process_column_stack_length [OF rs])
  have lev: "(select_hss_size (total_loads_of cases ! i) post_length b beam_w 46 0.9
                    = Inr None \<longrightarrow>
                  rs ! i = No_suitable_HSS (i + 1))
             \<and> (\<forall>hss A_hss S_hss B_hss.
                      select_hss_size (total_loads_of cases ! i) post_length b beam_w 46 0.9
                        = Inr (Some (hss, A_hss, S_hss, B_hss)) \<longrightarrow>
                      rs ! i =
                        Level_design (i + 1) hss
                          (calculate_plates b (total_loads_of cases ! i - b) B_hss
                             beam_w beam_h 0 lvl_bearing 36 0.9 1.6))"
    if i: "i < length cases" and c: "cases ! i = (post_length, b, beam_w, beam_h)"
    for i post_length b beam_w beam_h
    unfolding process_column_stack_nth [OF rs i] c
    using level_entry_None level_entry_Some by blast
  from rs len lev
  show "\<exists>rs. process_column_stack cases lvl_bearing = Inr rs
         \<and> length rs = length cases
         \<and> (\<forall>i<length cases. \<forall>post_length b beam_w beam_h.
               cases ! i = (post_length, b, beam_w, beam_h) \<longrightarrow>
                 (select_hss_size (total_loads_of cases ! i) post_length b beam_w 46 0.9
                    = Inr None \<longrightarrow>
                  rs ! i = No_suitable_HSS (i + 1))
                 \<and> (\<forall>hss A_hss S_hss B_hss.
                      select_hss_size (total_loads_of cases ! i) post_length b beam_w 46 0.9
                        = Inr (Some (hss, A_hss, S_hss, B_hss)) \<longrightarrow>
                      rs ! i =
                        Level_design (i + 1) hss
                          (calculate_plates b (total_loads_of cases ! i - b) B_hss
                             beam_w beam_h 0 lvl_bearing 36 0.9 1.6)))"
    by blast
qed

theorem no_section_is_recorded_and_the_stack_goes_on_witness:
  "entry_interaction 10020 10000 3 46 0.9 (hss_sizes ! 0) > 0.9
   \<and> entry_interaction 10020 10000 3 46 0.9 (hss_sizes ! 1) > 0.9
   \<and> entry_interaction 10020 10000 3 46 0.9 (hss_sizes ! 2) > 0.9
   \<and> entry_interaction 10020 10000 3 46 0.9 (hss_sizes ! 3) > 0.9
   \<and> entry_interaction 10020 10000 3 46 0.9 (hss_sizes ! 4) > 0.9
   \<and> length hss_sizes = 5
   \<and> select_hss_size 10020 120 10000 3 46 0.9 = Inr None
   \<and> select_hss_size 20 144 20 2.5 46 0.9 = Inr (Some (''HSS6x6x3/16'', 4.30, 10.3, 6.0))
   \<and> (\<exists>rs. process_column_stack [(120, 10000, 3, 12), (144, 20, 2.5, 10)] 500 = Inr rs
         \<and> length rs = 2
         \<and> rs ! 0 = No_suitable_HSS 1
         \<and> rs ! 1 = Level_design 2 ''HSS6x6x3/16''
                       (calculate_plates 20 (20 - 20) 6.0 2.5 10 0 500 36 0.9 1.6))"
proof -
  define cases :: "stack_case list" where
    "cases = [(120, 10000, 3, 12), (144, 20, 2.5, 10)]"
  note t = no_section_is_recorded_and_the_stack_goes_on
      [where P_total = 10020 and L = 120 and beam_load = 10000 and beam_width = 3
         and F_y = 46 and phi_c = "0.9" and cases = cases and lvl_bearing = 500]
  from t overloaded_all_fail
  have none: "select_hss_size 10020 120 10000 3 46 0.9 = Inr None" by blast
  have tl: "total_loads_of cases = [10020, 20]"
    by (simp add: cases_def total_loads_of_def)
  have c0: "cases ! 0 = (120, 10000, 3, 12)" and c1: "cases ! 1 = (144, 20, 2.5, 10)"
    and len: "length cases = 2"
    by (simp_all add: cases_def)
  from t obtain rs where rs: "process_column_stack cases 500 = Inr rs"
    and l: "length rs = length cases"
    and lev: "\<forall>i<length cases. \<forall>post_length b beam_w beam_h.
               cases ! i = (post_length, b, beam_w, beam_h) \<longrightarrow>
                 (select_hss_size (total_loads_of cases ! i) post_length b beam_w 46 0.9
                    = Inr None \<longrightarrow>
                  rs ! i = No_suitable_HSS (i + 1))
                 \<and> (\<forall>hss A_hss S_hss B_hss.
                      select_hss_size (total_loads_of cases ! i) post_length b beam_w 46 0.9
                        = Inr (Some (hss, A_hss, S_hss, B_hss)) \<longrightarrow>
                      rs ! i =
                        Level_design (i + 1) hss
                          (calculate_plates b (total_loads_of cases ! i - b) B_hss
                             beam_w beam_h 0 500 36 0.9 1.6))"
    by blast
  have r0: "rs ! 0 = No_suitable_HSS 1"
  proof -
    have i: "0 < length cases" by (simp add: len)
    have t0: "total_loads_of cases ! 0 = 10020" by (simp add: tl)
    note step = lev [rule_format, OF i c0, THEN conjunct1]
    from step [unfolded t0] none show ?thesis by simp
  qed
  have r1: "rs ! 1 = Level_design 2 ''HSS6x6x3/16''
                       (calculate_plates 20 (20 - 20) 6.0 2.5 10 0 500 36 0.9 1.6)"
  proof -
    have i: "1 < length cases" by (simp add: len)
    have t1: "total_loads_of cases ! 1 = 20" by (simp add: tl)
    note step = lev [rule_format, OF i c1, THEN conjunct2, rule_format,
        of "''HSS6x6x3/16''" "4.30" "10.3" "6.0"]
    from step [unfolded t1, OF select_light] show ?thesis by simp
  qed
  have l2: "length rs = 2" using l len by simp
  have each: "entry_interaction 10020 10000 3 46 0.9 (hss_sizes ! 0) > 0.9
     \<and> entry_interaction 10020 10000 3 46 0.9 (hss_sizes ! 1) > 0.9
     \<and> entry_interaction 10020 10000 3 46 0.9 (hss_sizes ! 2) > 0.9
     \<and> entry_interaction 10020 10000 3 46 0.9 (hss_sizes ! 3) > 0.9
     \<and> entry_interaction 10020 10000 3 46 0.9 (hss_sizes ! 4) > 0.9
     \<and> length hss_sizes = 5"
    by (simp add: hss_sizes_def entry_interaction_def interaction_def Let_def)
  from each none select_light rs [unfolded cases_def] l2 r0 r1
  show ?thesis by blast
qed

end
